theory Spec2Isabelle
  imports Main "HOL-Library.Word"
begin

section \<open>JSON values and the errors of the codec\<close>

text \<open>
  The codec (package stratumrpc) sits between a byte stream and an RPC engine. The
  stream carries one JSON value per message. JSON values are modelled by a datatype; a
  number keeps the text of its literal (the codec only ever stores a number as raw
  bytes or reads it as an unsigned integer), and an object keeps its members in the
  order in which they are written.

  A \<^verbatim>\<open>*json.RawMessage\<close> is an optional JSON value: \<open>None\<close> is the nil pointer. A
  value of type \<^verbatim>\<open>interface{}\<close> filled by the decoder is a JSON value, \<open>JNull\<close>
  being the nil interface. The conversions that encoding/json applies to such generic
  values (numbers read as float64, map keys written in sorted order) are not modelled.
\<close>

datatype json =
    JNull
  | JBool bool
  | JNumber string
  | JString string
  | JArray "json list"
  | JObject "(string \<times> json) list"

type_synonym RawMessage = json

text \<open>
  Errors are values. A run-time panic of the Go code (nil pointer dereference, index out
  of range, failed single-valued type assertion) is the error \<open>Panic\<close>, so that a panic
  is a branch of the model like every other way of leaving a function.
\<close>

datatype panic = NilDereference | IndexOutOfRange | TypeAssertion

datatype error =
    EOF
  | SyntaxError
  | UnmarshalTypeError
  | errMissingParams
  | errInvalidSequence
  | errInvalidError json
  | Panic panic

definition is_panic :: "error option \<Rightarrow> bool" where
  "is_panic e = (case e of Some (Panic p) \<Rightarrow> True | _ \<Rightarrow> False)"

section \<open>The structures of the codec\<close>

text \<open>The request and response headers of package rpc2, as far as the codec uses them.\<close>

record Request =
  req_Method :: string
  req_Seq :: "64 word"

record Response =
  resp_Seq :: "64 word"
  resp_Error :: string

record message =
  m_Method :: string
  m_Params :: "RawMessage option"
  m_ID :: "RawMessage option"
  m_Result :: "RawMessage option"
  m_Error :: json

record serverRequest =
  sreq_Method :: string
  sreq_Params :: "RawMessage option"
  sreq_ID :: "RawMessage option"

record clientResponse =
  cresp_ID :: "64 word"
  cresp_Result :: "RawMessage option"
  cresp_Error :: json

record serverResponse =
  sresp_ID :: "RawMessage option"
  sresp_Result :: json
  sresp_Error :: json

record clientRequest =
  creq_Method :: string
  creq_Params :: "json list option"
  creq_ID :: "64 word option"

text \<open>
  What the decoder finds next on the connection: a complete JSON value, or bytes that
  are not JSON. The end of the list is the end of the stream.
\<close>

datatype chunk = Garbage | Value json

text \<open>
  The codec. \<open>dec\<close> is what is still to be read from the connection, \<open>enc\<close> the JSON
  values written to it so far, oldest first. A \<^verbatim>\<open>[]interface{}\<close> is an optional list
  (\<open>None\<close> is the nil slice), and the pending map sends a sequence number to the
  \<^verbatim>\<open>*json.RawMessage\<close> saved for it.
\<close>

record stratumCodec =
  dec :: "chunk list"
  enc :: "json list"
  msg :: message
  serverRequest :: serverRequest
  clientResponse :: clientResponse
  pending :: "64 word \<Rightarrow> RawMessage option option"
  seq :: "64 word"

definition zero_message :: message where
  "zero_message = \<lparr>m_Method = [], m_Params = None, m_ID = None, m_Result = None, m_Error = JNull\<rparr>"

definition NewStratumCodec :: "chunk list \<Rightarrow> stratumCodec" where
  "NewStratumCodec conn =
     \<lparr>dec = conn, enc = [], msg = zero_message,
      serverRequest = \<lparr>sreq_Method = [], sreq_Params = None, sreq_ID = None\<rparr>,
      clientResponse = \<lparr>cresp_ID = 0, cresp_Result = None, cresp_Error = JNull\<rparr>,
      pending = Map.empty, seq = 0\<rparr>"

section \<open>The parts of encoding/json that the codec calls\<close>

subsection \<open>Unsigned integers\<close>

definition is_digit :: "char \<Rightarrow> bool" where
  "is_digit c = (48 \<le> (of_char c :: nat) \<and> (of_char c :: nat) \<le> 57)"

definition digit_val :: "char \<Rightarrow> nat" where
  "digit_val c = of_char c - 48"

text \<open>
  Unmarshalling a number into a \<^verbatim>\<open>uint64\<close> accepts a literal made of decimal digits
  only whose value is below \<open>2 ^ 64\<close>; a sign, a fraction or an exponent is a type error.
\<close>

definition parse_uint :: "string \<Rightarrow> nat option" where
  "parse_uint s =
     (if s \<noteq> [] \<and> list_all is_digit s
      then Some (foldl (\<lambda>a c. 10 * a + digit_val c) 0 s) else None)"

text \<open>
  \<^verbatim>\<open>json.Unmarshal(raw, &id)\<close> for \<^verbatim>\<open>id uint64\<close>. JSON null leaves the variable as it
  was and is no error; every value that is not a number is a type error.
\<close>

definition unmarshal_uint64 :: "RawMessage \<Rightarrow> 64 word \<Rightarrow> error + 64 word" where
  "unmarshal_uint64 raw old =
     (case raw of
        JNull \<Rightarrow> Inr old
      | JNumber s \<Rightarrow>
          (case parse_uint s of
             Some n \<Rightarrow> if n < 2 ^ 64 then Inr (word_of_nat n) else Inl UnmarshalTypeError
           | None \<Rightarrow> Inl UnmarshalTypeError)
      | _ \<Rightarrow> Inl UnmarshalTypeError)"

text \<open>The decimal literal that \<^verbatim>\<open>json.Marshal\<close> writes for an unsigned integer.\<close>

function decimal :: "nat \<Rightarrow> string" where
  "decimal n =
     (if n < 10 then [''0123456789'' ! n]
      else decimal (n div 10) @ [''0123456789'' ! (n mod 10)])"
  by pat_completeness auto
termination
  by (relation "measure id") auto

declare decimal.simps [simp del]

subsection \<open>Decoding a message\<close>

text \<open>
  Member names are matched without regard to (ASCII) letter case. A member \<open>null\<close>
  sets a pointer to nil and leaves a string as it is. A member \<open>method\<close> that is not a
  string is a type error; decoding goes on and the first such error is returned.
\<close>

definition lower :: "char \<Rightarrow> char" where
  "lower c =
     (case map_of (zip ''ABCDEFGHIJKLMNOPQRSTUVWXYZ'' ''abcdefghijklmnopqrstuvwxyz'') c of
        Some d \<Rightarrow> d
      | None \<Rightarrow> c)"

definition raw_ptr :: "json \<Rightarrow> RawMessage option" where
  "raw_ptr v = (if v = JNull then None else Some v)"

definition store_member :: "message \<times> error option \<Rightarrow> string \<times> json \<Rightarrow> message \<times> error option" where
  "store_member st kv =
     (let m = fst st; e = snd st; k = map lower (fst kv); v = snd kv in
      if k = ''method'' then
        (case v of
           JString s \<Rightarrow> (m\<lparr>m_Method := s\<rparr>, e)
         | JNull \<Rightarrow> (m, e)
         | _ \<Rightarrow> (m, (case e of None \<Rightarrow> Some UnmarshalTypeError | Some e' \<Rightarrow> Some e')))
      else if k = ''params'' then (m\<lparr>m_Params := raw_ptr v\<rparr>, e)
      else if k = ''id'' then (m\<lparr>m_ID := raw_ptr v\<rparr>, e)
      else if k = ''result'' then (m\<lparr>m_Result := raw_ptr v\<rparr>, e)
      else if k = ''error'' then (m\<lparr>m_Error := v\<rparr>, e)
      else (m, e))"

definition unmarshal_message :: "json \<Rightarrow> message \<Rightarrow> message \<times> error option" where
  "unmarshal_message v m =
     (case v of
        JObject kvs \<Rightarrow> foldl store_member (m, None) kvs
      | JNull \<Rightarrow> (m, None)
      | _ \<Rightarrow> (m, Some UnmarshalTypeError))"

text \<open>
  \<^verbatim>\<open>dec.Decode(&m)\<close>: the next value of the stream is consumed and stored into \<open>m\<close>.
  At the end of the stream the error is \<open>EOF\<close>; bytes that are not JSON are a syntax
  error, which the decoder keeps returning.
\<close>

definition Decode :: "chunk list \<Rightarrow> message \<Rightarrow> (message \<times> error option) \<times> chunk list" where
  "Decode d m =
     (case d of
        [] \<Rightarrow> ((m, Some EOF), [])
      | Garbage # rest \<Rightarrow> ((m, Some SyntaxError), d)
      | Value v # rest \<Rightarrow> (unmarshal_message v m, rest))"

section \<open>ReadHeader\<close>

text \<open>
  ReadHeader fills the request header or the response header it is given, and returns
  the error (if any), both headers and the codec. A frame with a method is a request: a
  request with an id gets the next sequence number, and its id is saved under that
  number. A frame without a method is a response.
\<close>

definition ReadHeader ::
  "stratumCodec \<Rightarrow> Request \<Rightarrow> Response \<Rightarrow> error option \<times> Request \<times> Response \<times> stratumCodec" where
  "ReadHeader c0 req resp =
     (case Decode (dec c0) zero_message of
        ((m, Some err), d) \<Rightarrow> (Some err, req, resp, c0\<lparr>msg := m, dec := d\<rparr>)
      | ((m, None), d) \<Rightarrow>
          (let c = c0\<lparr>msg := m, dec := d\<rparr> in
           if m_Method m \<noteq> [] then
             (let c = c\<lparr>serverRequest :=
                         \<lparr>sreq_Method = m_Method m, sreq_Params = m_Params m, sreq_ID = m_ID m\<rparr>\<rparr>;
                  req = req\<lparr>req_Method := sreq_Method (serverRequest c)\<rparr>
              in case sreq_ID (serverRequest c) of
                   None \<Rightarrow> (None, req, resp, c)
                 | Some i \<Rightarrow>
                     (let c = c\<lparr>seq := seq c + 1\<rparr>;
                          c = c\<lparr>pending := (pending c)(seq c \<mapsto> sreq_ID (serverRequest c))\<rparr>;
                          c = c\<lparr>serverRequest := (serverRequest c)\<lparr>sreq_ID := None\<rparr>\<rparr>
                      in (None, req\<lparr>req_Seq := seq c\<rparr>, resp, c)))
           else
             (case m_ID m of
                None \<Rightarrow> (Some (Panic NilDereference), req, resp, c)
              | Some raw \<Rightarrow>
                  (case unmarshal_uint64 raw (cresp_ID (clientResponse c)) of
                     Inl err \<Rightarrow> (Some err, req, resp, c)
                   | Inr n \<Rightarrow>
                       (let c = c\<lparr>clientResponse :=
                                   \<lparr>cresp_ID = n, cresp_Result = m_Result m, cresp_Error = m_Error m\<rparr>\<rparr>;
                            resp = resp\<lparr>resp_Error := [], resp_Seq := cresp_ID (clientResponse c)\<rparr>
                        in if cresp_Error (clientResponse c) \<noteq> JNull then
                             (case cresp_Error (clientResponse c) of
                                JString x \<Rightarrow>
                                  (None, req, resp\<lparr>resp_Error := (if x = [] then ''unspecified error'' else x)\<rparr>, c)
                              | JArray a \<Rightarrow>
                                  (if length a \<le> 1 then (Some (Panic IndexOutOfRange), req, resp, c)
                                   else (case a ! 1 of
                                           JString x \<Rightarrow>
                                             (None, req, resp\<lparr>resp_Error := (if x = [] then ''unspecified error'' else x)\<rparr>, c)
                                         | _ \<Rightarrow> (Some (Panic TypeAssertion), req, resp, c)))
                              | other \<Rightarrow> (Some (errInvalidError other), req, resp, c))
                           else (None, req, resp, c))))))"

subsection \<open>Reading JSON text\<close>

text \<open>
  WriteResponse hands the text of an error to \<^verbatim>\<open>json.Unmarshal\<close>, so the model reads
  JSON text: white space, the three literals, numbers, strings with their escapes, arrays
  and objects. A string is read in two passes, as the library does: the escapes are
  resolved into bytes and UTF-16 code units, then a pair of surrogates becomes one code
  point and a lone surrogate the replacement character, written in UTF-8. Bytes of the
  text that are not ASCII are copied as they are. The recursion on nested values is
  bounded by a counter that starts at twice the length of the text.
\<close>

definition is_space :: "char \<Rightarrow> bool" where
  "is_space c = (c = CHR '' '' \<or> c = CHR 0x09 \<or> c = CHR 0x0A \<or> c = CHR 0x0D)"

definition skip_space :: "string \<Rightarrow> string" where
  "skip_space s = dropWhile is_space s"

definition scan_digits :: "string \<Rightarrow> (string \<times> string) option" where
  "scan_digits s =
     (case s of
        [] \<Rightarrow> None
      | c # t \<Rightarrow> if is_digit c then Some (takeWhile is_digit s, dropWhile is_digit s) else None)"

definition scan_int :: "string \<Rightarrow> (string \<times> string) option" where
  "scan_int s =
     (case s of
        [] \<Rightarrow> None
      | c # t \<Rightarrow> if c = CHR ''0'' then Some ([c], t) else scan_digits s)"

definition scan_frac :: "string \<Rightarrow> (string \<times> string) option" where
  "scan_frac s =
     (case s of
        [] \<Rightarrow> Some ([], s)
      | c # t \<Rightarrow>
          if c = CHR ''.'' then map_option (\<lambda>(ds, r). (c # ds, r)) (scan_digits t)
          else Some ([], s))"

definition scan_exp :: "string \<Rightarrow> (string \<times> string) option" where
  "scan_exp s =
     (case s of
        [] \<Rightarrow> Some ([], s)
      | c # t \<Rightarrow>
          if c = CHR ''e'' \<or> c = CHR ''E'' then
            (case t of
               [] \<Rightarrow> None
             | d # u \<Rightarrow>
                 if d = CHR ''+'' \<or> d = CHR ''-''
                 then map_option (\<lambda>(ds, r). (c # d # ds, r)) (scan_digits u)
                 else map_option (\<lambda>(ds, r). (c # ds, r)) (scan_digits t))
          else Some ([], s))"

definition scan_number :: "string \<Rightarrow> (string \<times> string) option" where
  "scan_number s =
     (let sg = (case s of [] \<Rightarrow> [] | c # t \<Rightarrow> if c = CHR ''-'' then [c] else [])
      in case scan_int (drop (length sg) s) of
           None \<Rightarrow> None
         | Some (i, s2) \<Rightarrow>
             (case scan_frac s2 of
                None \<Rightarrow> None
              | Some (f, s3) \<Rightarrow>
                  (case scan_exp s3 of
                     None \<Rightarrow> None
                   | Some (e, s4) \<Rightarrow> Some (sg @ i @ f @ e, s4))))"

definition hex_val :: "char \<Rightarrow> nat option" where
  "hex_val c =
     (let n = (of_char c :: nat) in
      if 48 \<le> n \<and> n \<le> 57 then Some (n - 48)
      else if 97 \<le> n \<and> n \<le> 102 then Some (n - 87)
      else if 65 \<le> n \<and> n \<le> 70 then Some (n - 55)
      else None)"

definition hex4 :: "char \<Rightarrow> char \<Rightarrow> char \<Rightarrow> char \<Rightarrow> nat option" where
  "hex4 a b c d =
     (case (hex_val a, hex_val b, hex_val c, hex_val d) of
        (Some w, Some x, Some y, Some z) \<Rightarrow> Some (((w * 16 + x) * 16 + y) * 16 + z)
      | _ \<Rightarrow> None)"

definition unescape :: "char \<Rightarrow> char option" where
  "unescape e =
     (if e = CHR 0x22 \<or> e = CHR 0x5C \<or> e = CHR ''/'' then Some e
      else if e = CHR ''b'' then Some (CHR 0x08)
      else if e = CHR ''f'' then Some (CHR 0x0C)
      else if e = CHR ''n'' then Some (CHR 0x0A)
      else if e = CHR ''r'' then Some (CHR 0x0D)
      else if e = CHR ''t'' then Some (CHR 0x09)
      else None)"

datatype code_unit = Byte char | Esc nat

text \<open>The body of a string, read from behind its opening quote up to the closing one.\<close>

fun scan_string :: "string \<Rightarrow> (code_unit list \<times> string) option" where
  "scan_string [] = None"
| "scan_string (c # cs) =
     (if c = CHR 0x22 then Some ([], cs)
      else if c = CHR 0x5C then
        (case cs of
           [] \<Rightarrow> None
         | e # cs1 \<Rightarrow>
             if e = CHR ''u'' then
               (case cs1 of
                  h1 # h2 # h3 # h4 # cs2 \<Rightarrow>
                    (case hex4 h1 h2 h3 h4 of
                       None \<Rightarrow> None
                     | Some u \<Rightarrow> map_option (\<lambda>(us, r). (Esc u # us, r)) (scan_string cs2))
                | _ \<Rightarrow> None)
             else
               (case unescape e of
                  None \<Rightarrow> None
                | Some b \<Rightarrow> map_option (\<lambda>(us, r). (Byte b # us, r)) (scan_string cs1)))
      else if (of_char c :: nat) < 32 then None
      else map_option (\<lambda>(us, r). (Byte c # us, r)) (scan_string cs))"

definition utf8 :: "nat \<Rightarrow> string" where
  "utf8 n =
     (if n < 128 then [char_of n]
      else if n < 2048 then [char_of (192 + n div 64), char_of (128 + n mod 64)]
      else if n < 65536 then
        [char_of (224 + n div 4096), char_of (128 + n div 64 mod 64), char_of (128 + n mod 64)]
      else
        [char_of (240 + n div 262144), char_of (128 + n div 4096 mod 64),
         char_of (128 + n div 64 mod 64), char_of (128 + n mod 64)])"

definition is_surrogate :: "nat \<Rightarrow> bool" where
  "is_surrogate u = (55296 \<le> u \<and> u < 57344)"

fun decode_units :: "code_unit list \<Rightarrow> string" where
  "decode_units [] = []"
| "decode_units (Byte b # r) = b # decode_units r"
| "decode_units (Esc u # r) =
     (if is_surrogate u then
        (case r of
           Esc v # r' \<Rightarrow>
             if u < 56320 \<and> 56320 \<le> v \<and> v < 57344
             then utf8 (65536 + (u - 55296) * 1024 + (v - 56320)) @ decode_units r'
             else utf8 65533 @ decode_units r
         | _ \<Rightarrow> utf8 65533 @ decode_units r)
      else utf8 u @ decode_units r)"

fun parse_value :: "nat \<Rightarrow> string \<Rightarrow> (json \<times> string) option"
  and parse_elements :: "nat \<Rightarrow> string \<Rightarrow> (json list \<times> string) option"
  and parse_members :: "nat \<Rightarrow> string \<Rightarrow> ((string \<times> json) list \<times> string) option"
where
  "parse_value 0 s = None"
| "parse_value (Suc n) s =
     (case skip_space s of
        [] \<Rightarrow> None
      | c # t \<Rightarrow>
          if c = CHR ''['' then
            (case skip_space t of
               [] \<Rightarrow> None
             | d # u \<Rightarrow>
                 if d = CHR '']'' then Some (JArray [], u)
                 else map_option (\<lambda>(vs, r). (JArray vs, r)) (parse_elements n t))
          else if c = CHR ''{'' then
            (case skip_space t of
               [] \<Rightarrow> None
             | d # u \<Rightarrow>
                 if d = CHR ''}'' then Some (JObject [], u)
                 else map_option (\<lambda>(kvs, r). (JObject kvs, r)) (parse_members n t))
          else if c = CHR 0x22 then
            map_option (\<lambda>(us, r). (JString (decode_units us), r)) (scan_string t)
          else if take 4 (c # t) = ''null'' then Some (JNull, drop 3 t)
          else if take 4 (c # t) = ''true'' then Some (JBool True, drop 3 t)
          else if take 5 (c # t) = ''false'' then Some (JBool False, drop 4 t)
          else map_option (\<lambda>(lit, r). (JNumber lit, r)) (scan_number (c # t)))"
| "parse_elements 0 s = None"
| "parse_elements (Suc n) s =
     (case parse_value n s of
        None \<Rightarrow> None
      | Some (v, r) \<Rightarrow>
          (case skip_space r of
             [] \<Rightarrow> None
           | c # t \<Rightarrow>
               if c = CHR '','' then map_option (\<lambda>(vs, r'). (v # vs, r')) (parse_elements n t)
               else if c = CHR '']'' then Some ([v], t)
               else None))"
| "parse_members 0 s = None"
| "parse_members (Suc n) s =
     (case skip_space s of
        [] \<Rightarrow> None
      | q # s1 \<Rightarrow>
          if q \<noteq> CHR 0x22 then None
          else
            (case scan_string s1 of
               None \<Rightarrow> None
             | Some (us, s2) \<Rightarrow>
                 (case skip_space s2 of
                    [] \<Rightarrow> None
                  | col # s3 \<Rightarrow>
                      if col \<noteq> CHR '':'' then None
                      else
                        (case parse_value n s3 of
                           None \<Rightarrow> None
                         | Some (v, r) \<Rightarrow>
                             (case skip_space r of
                                [] \<Rightarrow> None
                              | c # t \<Rightarrow>
                                  if c = CHR '','' then
                                    map_option (\<lambda>(kvs, r'). ((decode_units us, v) # kvs, r'))
                                      (parse_members n t)
                                  else if c = CHR ''}'' then Some ([(decode_units us, v)], t)
                                  else None)))))"

text \<open>A text is valid JSON when it is one value, with white space around it at most.\<close>

definition parse_json :: "string \<Rightarrow> json option" where
  "parse_json s =
     (case parse_value (2 * length s + 2) s of
        None \<Rightarrow> None
      | Some (v, r) \<Rightarrow> if skip_space r = [] then Some v else None)"

subsection \<open>Slices of generic values\<close>

text \<open>
  Unmarshalling into a \<^verbatim>\<open>[]interface{}\<close>: an array gives its elements, JSON null gives
  the nil slice and no error, every other value is a type error. Marshalling a nil slice
  writes null.
\<close>

definition unmarshal_slice :: "json \<Rightarrow> error + json list option" where
  "unmarshal_slice v =
     (case v of
        JArray xs \<Rightarrow> Inr (Some xs)
      | JNull \<Rightarrow> Inr None
      | _ \<Rightarrow> Inl UnmarshalTypeError)"

definition unmarshal_text_slice :: "string \<Rightarrow> error + json list option" where
  "unmarshal_text_slice s =
     (case parse_json s of
        None \<Rightarrow> Inl SyntaxError
      | Some v \<Rightarrow> unmarshal_slice v)"

definition marshal_slice :: "json list option \<Rightarrow> json" where
  "marshal_slice p = (case p of None \<Rightarrow> JNull | Some xs \<Rightarrow> JArray xs)"

subsection \<open>Marshalling the frames\<close>

text \<open>
  A structure is written as an object with its members in the order of its fields. A nil
  pointer and a nil interface are written as null.
\<close>

definition null :: RawMessage where
  "null = JNull"

definition marshal_clientRequest :: "clientRequest \<Rightarrow> json" where
  "marshal_clientRequest r =
     JObject [(''method'', JString (creq_Method r)),
              (''params'', marshal_slice (creq_Params r)),
              (''id'', (case creq_ID r of None \<Rightarrow> JNull | Some n \<Rightarrow> JNumber (decimal (unat n))))]"

definition marshal_serverResponse :: "serverResponse \<Rightarrow> json" where
  "marshal_serverResponse r =
     JObject [(''id'', (case sresp_ID r of None \<Rightarrow> JNull | Some b \<Rightarrow> b)),
              (''result'', sresp_Result r),
              (''error'', sresp_Error r)]"

text \<open>
  \<^verbatim>\<open>enc.Encode(v)\<close> appends the value to what has been written. A write that fails
  on the connection is outside the model.
\<close>

definition Encode :: "stratumCodec \<Rightarrow> json \<Rightarrow> error option \<times> stratumCodec" where
  "Encode c v = (None, c\<lparr>enc := enc c @ [v]\<rparr>)"

text \<open>The member of a frame with a given name, for reading what was written.\<close>

definition member :: "string \<Rightarrow> json \<Rightarrow> json option" where
  "member k v = (case v of JObject kvs \<Rightarrow> map_of kvs k | _ \<Rightarrow> None)"

section \<open>The body readers\<close>

text \<open>
  The engine hands a body reader a value \<^verbatim>\<open>x interface{}\<close>: nil, a pointer to a
  \<^verbatim>\<open>[]interface{}\<close>, or a pointer to a value of another type. In the last case the
  target carries the unmarshalling function of that type (from the JSON value and the
  present content to the new content) and the present content.
\<close>

datatype 'a target =
    TNil
  | TSlice "json list option"
  | TPtr "json \<Rightarrow> 'a \<Rightarrow> error + 'a" 'a

text \<open>\<^verbatim>\<open>json.Unmarshal(raw, x)\<close> for a target that is not nil.\<close>

definition unmarshal_target :: "json \<Rightarrow> 'a target \<Rightarrow> error + 'a target" where
  "unmarshal_target raw x =
     (case x of
        TNil \<Rightarrow> Inl UnmarshalTypeError
      | TSlice old \<Rightarrow> (case unmarshal_slice raw of Inl e \<Rightarrow> Inl e | Inr p \<Rightarrow> Inr (TSlice p))
      | TPtr u a \<Rightarrow> (case u raw a of Inl e \<Rightarrow> Inl e | Inr b \<Rightarrow> Inr (TPtr u b)))"

text \<open>
  \<^verbatim>\<open>json.Unmarshal(raw, &[]interface{}{x})\<close>: the first element of an array is
  decoded into what \<open>x\<close> points to, the other elements into values that are dropped. A
  first element null is stored into the list itself and leaves what \<open>x\<close> points to as
  it is (a pointer to a pointer is outside the model). An empty array and null leave
  \<open>x\<close> as it is; a value that is not an array is a type error.
\<close>

definition unmarshal_positional :: "json \<Rightarrow> 'a target \<Rightarrow> error + 'a target" where
  "unmarshal_positional raw x =
     (case raw of
        JArray [] \<Rightarrow> Inr x
      | JArray (v # vs) \<Rightarrow> if v = JNull then Inr x else unmarshal_target v x
      | JNull \<Rightarrow> Inr x
      | _ \<Rightarrow> Inl UnmarshalTypeError)"

definition ReadRequestBody :: "stratumCodec \<Rightarrow> 'a target \<Rightarrow> error + 'a target" where
  "ReadRequestBody c x =
     (if x = TNil then Inr x
      else case sreq_Params (serverRequest c) of
             None \<Rightarrow> Inl errMissingParams
           | Some raw \<Rightarrow>
               (case x of
                  TSlice old \<Rightarrow> unmarshal_target raw x
                | _ \<Rightarrow> unmarshal_positional raw x))"

definition ReadResponseBody :: "stratumCodec \<Rightarrow> 'a target \<Rightarrow> error + 'a target" where
  "ReadResponseBody c x =
     (if x = TNil then Inr x
      else case cresp_Result (clientResponse c) of
             None \<Rightarrow> Inr x
           | Some raw \<Rightarrow> unmarshal_target raw x)"

section \<open>The frame writers\<close>

text \<open>
  The parameter of a call is a \<^verbatim>\<open>[]interface{}\<close> (possibly the nil slice), or a value
  of any other type, given by the JSON value it is marshalled to.
\<close>

datatype param = PSlice "json list option" | PValue json

definition WriteRequest :: "stratumCodec \<Rightarrow> Request \<Rightarrow> param \<Rightarrow> error option \<times> stratumCodec" where
  "WriteRequest c r p =
     (let req = \<lparr>creq_Method = req_Method r, creq_Params = None, creq_ID = None\<rparr>;
          req = (case p of
                   PSlice xs \<Rightarrow> req\<lparr>creq_Params := xs\<rparr>
                 | PValue v \<Rightarrow> req\<lparr>creq_Params := Some [v]\<rparr>);
          req = (if req_Seq r = 0 then req\<lparr>creq_ID := None\<rparr>
                 else req\<lparr>creq_ID := Some (req_Seq r)\<rparr>)
      in Encode c (marshal_clientRequest req))"

definition WriteResponse :: "stratumCodec \<Rightarrow> Response \<Rightarrow> json \<Rightarrow> error option \<times> stratumCodec" where
  "WriteResponse c0 r x =
     (case pending c0 (resp_Seq r) of
        None \<Rightarrow> (Some errInvalidSequence, c0)
      | Some b0 \<Rightarrow>
          (let c = c0\<lparr>pending := (pending c0)(resp_Seq r := None)\<rparr>;
               b = (case b0 of None \<Rightarrow> Some null | Some i \<Rightarrow> Some i);
               resp = \<lparr>sresp_ID = b, sresp_Result = JNull, sresp_Error = JNull\<rparr>;
               resp = (if resp_Error r = [] then resp\<lparr>sresp_Result := x\<rparr>
                       else case unmarshal_text_slice (resp_Error r) of
                              Inr iErr \<Rightarrow> resp\<lparr>sresp_Error := marshal_slice iErr\<rparr>
                            | Inl err \<Rightarrow> resp\<lparr>sresp_Error := JString (resp_Error r)\<rparr>)
           in Encode c (marshal_serverResponse resp)))"

section \<open>Runs of a connection\<close>

text \<open>
  The engine calls the codec again and again. A run is a list of such calls; the body
  readers do not change the codec and are left out. Its trace records every sequence
  number that ReadHeader hands out (the counter has moved) and every sequence number
  that WriteResponse has answered (it returned no error).
\<close>

datatype op =
    OpReadHeader Request Response
  | OpWriteRequest Request param
  | OpWriteResponse Response json

datatype event = Issued "64 word" | Answered "64 word"

fun step :: "stratumCodec \<Rightarrow> op \<Rightarrow> event list \<times> stratumCodec" where
  "step c (OpReadHeader req resp) =
     (let c' = snd (snd (snd (ReadHeader c req resp)))
      in (if seq c' = seq c then [] else [Issued (seq c')], c'))"
| "step c (OpWriteRequest r p) = ([], snd (WriteRequest c r p))"
| "step c (OpWriteResponse r x) =
     (case WriteResponse c r x of
        (None, c') \<Rightarrow> ([Answered (resp_Seq r)], c')
      | (Some e, c') \<Rightarrow> ([], c'))"

fun exec :: "stratumCodec \<Rightarrow> op list \<Rightarrow> event list \<times> stratumCodec" where
  "exec c [] = ([], c)"
| "exec c (a # as) =
     (let (tr1, c1) = step c a; (tr2, c2) = exec c1 as in (tr1 @ tr2, c2))"

fun issued :: "event list \<Rightarrow> 64 word list" where
  "issued [] = []"
| "issued (Issued s # tr) = s # issued tr"
| "issued (Answered s # tr) = issued tr"

section \<open>Example frames\<close>

text \<open>
  The request \<^verbatim>\<open>{"method":"add","params":[1,2],"id":7}\<close>, a request without
  params, and the empty headers that the engine passes to ReadHeader.
\<close>

definition request7 :: json where
  "request7 =
     JObject [(''method'', JString ''add''),
              (''params'', JArray [JNumber ''1'', JNumber ''2'']),
              (''id'', JNumber ''7'')]"

definition ping :: json where
  "ping = JObject [(''method'', JString ''ping''), (''id'', JNumber ''1'')]"

definition rq0 :: Request where
  "rq0 = \<lparr>req_Method = [], req_Seq = 0\<rparr>"

definition rs0 :: Response where
  "rs0 = \<lparr>resp_Seq = 0, resp_Error = []\<rparr>"

text \<open>A response frame with the given id and error members.\<close>

definition reply :: "json \<Rightarrow> json \<Rightarrow> json" where
  "reply i e = JObject [(''id'', i), (''result'', JNull), (''error'', e)]"

text \<open>A connection on which the peer sends the same request \<open>n\<close> times.\<close>

definition flood :: "nat \<Rightarrow> chunk list" where
  "flood n = replicate n (Value request7)"

text \<open>
  The run in which the codec reads all \<open>n\<close> requests of such a connection, and a
  connection with three requests.
\<close>

definition flooded :: "nat \<Rightarrow> event list \<times> stratumCodec" where
  "flooded n = exec (NewStratumCodec (flood n)) (replicate n (OpReadHeader rq0 rs0))"

definition conn3 :: "chunk list" where
  "conn3 = [Value ping, Value request7, Value ping]"

lemmas eval_defs =
  ReadHeader_def Decode_def unmarshal_message_def store_member_def lower_def raw_ptr_def
  NewStratumCodec_def zero_message_def unmarshal_uint64_def parse_uint_def is_digit_def
  digit_val_def rq0_def rs0_def request7_def ping_def reply_def Let_def

section \<open>Evaluating the example frames\<close>

lemma unmarshal_request7:
  "unmarshal_message request7 zero_message =
     (\<lparr>m_Method = ''add'', m_Params = Some (JArray [JNumber ''1'', JNumber ''2'']),
       m_ID = Some (JNumber ''7''), m_Result = None, m_Error = JNull\<rparr>, None)"
  by (simp add: eval_defs)

lemma unmarshal_ping:
  "unmarshal_message ping zero_message =
     (\<lparr>m_Method = ''ping'', m_Params = None, m_ID = Some (JNumber ''1''),
       m_Result = None, m_Error = JNull\<rparr>, None)"
  by (simp add: eval_defs)

lemmas run_defs =
  ReadHeader_def Decode_def unmarshal_request7 unmarshal_ping NewStratumCodec_def rq0_def rs0_def
  WriteResponse_def Encode_def marshal_serverResponse_def null_def conn3_def Let_def

lemma unmarshal_reply:
  "i \<noteq> JNull \<Longrightarrow> unmarshal_message (reply i e) zero_message =
     (\<lparr>m_Method = [], m_Params = None, m_ID = Some i, m_Result = None, m_Error = e\<rparr>, None)"
  by (simp add: reply_def unmarshal_message_def store_member_def lower_def raw_ptr_def zero_message_def Let_def)

lemma Decode_reply:
  "i \<noteq> JNull \<Longrightarrow> Decode [Value (reply i e)] zero_message =
     ((\<lparr>m_Method = [], m_Params = None, m_ID = Some i, m_Result = None, m_Error = e\<rparr>, None), [])"
  by (simp add: Decode_def unmarshal_reply)

lemma unmarshal_uint64_digit:
  "unmarshal_uint64 (JNumber ''1'') k = Inr 1" "unmarshal_uint64 (JNumber ''2'') k = Inr 2"
  "unmarshal_uint64 (JNumber ''3'') k = Inr 3" "unmarshal_uint64 (JNumber ''4'') k = Inr 4"
  by (simp_all add: unmarshal_uint64_def parse_uint_def is_digit_def digit_val_def)

lemma parse_json_null: "parse_json ''null'' = Some JNull"
  by code_simp

lemma parse_json_job_not_found:
  "parse_json ''[21, \"Job not found\", null]'' =
     Some (JArray [JNumber ''21'', JString ''Job not found'', JNull])"
  by code_simp

text \<open>A frame written by WriteRequest, as the decoder of the peer stores it.\<close>

lemma unmarshal_clientRequest:
  "unmarshal_message (marshal_clientRequest q) zero_message =
     (\<lparr>m_Method = creq_Method q,
       m_Params = raw_ptr (marshal_slice (creq_Params q)),
       m_ID = (case creq_ID q of None \<Rightarrow> None | Some n \<Rightarrow> Some (JNumber (decimal (unat n)))),
       m_Result = None, m_Error = JNull\<rparr>, None)"
  by (simp add: marshal_clientRequest_def unmarshal_message_def store_member_def lower_def
        raw_ptr_def zero_message_def Let_def split: option.splits)

section \<open>How each operation changes the counter and the pending map\<close>

lemma ReadHeader_effect:
  assumes "ReadHeader c req resp = (e, req', resp', c')"
  shows "enc c' = enc c \<and>
         ((seq c' = seq c \<and> pending c' = pending c) \<or>
          (\<exists>i. seq c' = seq c + 1 \<and> pending c' = (pending c)(seq c + 1 \<mapsto> Some i)))"
  using assms unfolding ReadHeader_def
  by (auto simp: Let_def split: prod.splits option.splits sum.splits json.splits if_splits)

lemma WriteRequest_effect:
  "WriteRequest c r p = (e, c') \<Longrightarrow> seq c' = seq c \<and> pending c' = pending c \<and> e = None"
  by (auto simp: WriteRequest_def Encode_def Let_def)

lemma WriteResponse_effect:
  assumes "WriteResponse c r x = (e, c')"
  shows "seq c' = seq c \<and>
         (case e of
            Some err \<Rightarrow> c' = c \<and> pending c (resp_Seq r) = None \<and> err = errInvalidSequence
          | None \<Rightarrow> pending c (resp_Seq r) \<noteq> None \<and> pending c' = (pending c)(resp_Seq r := None))"
  using assms unfolding WriteResponse_def
  by (auto simp: Let_def Encode_def split: option.splits)

lemma ReadHeader_request:
  assumes "Decode (dec c) zero_message = ((m, None), d)" and "m_Method m \<noteq> []"
    and "m_ID m = Some i" and "ReadHeader c req resp = (e, req', resp', c1)"
  shows "e = None \<and> req_Method req' = m_Method m \<and> req_Seq req' = seq c + 1 \<and>
         resp' = resp \<and> seq c1 = seq c + 1 \<and> pending c1 = (pending c)(seq c + 1 \<mapsto> Some i) \<and>
         sreq_Params (serverRequest c1) = m_Params m"
  using assms unfolding ReadHeader_def by (auto simp: Let_def)

lemma WriteResponse_pending:
  assumes "pending c s = Some (Some i)"
  shows "\<exists>res err. WriteResponse c \<lparr>resp_Seq = s, resp_Error = t\<rparr> x =
           (None, c\<lparr>pending := (pending c)(s := None),
                    enc := enc c @ [JObject [(''id'', i), (''result'', res), (''error'', err)]]\<rparr>)"
  using assms
  by (auto simp: WriteResponse_def Encode_def marshal_serverResponse_def Let_def split: sum.splits)

lemma response_header:
  assumes "Decode (dec c) zero_message = ((m, None), d)" and "m_Method m = []"
    and "m_ID m = Some raw" and "unmarshal_uint64 raw (cresp_ID (clientResponse c)) = Inr n"
  shows "ReadHeader c req resp =
    (let c' = c\<lparr>msg := m, dec := d,
                 clientResponse := \<lparr>cresp_ID = n, cresp_Result = m_Result m, cresp_Error = m_Error m\<rparr>\<rparr>;
         resp' = resp\<lparr>resp_Error := [], resp_Seq := n\<rparr>
     in case m_Error m of
          JNull \<Rightarrow> (None, req, resp', c')
        | JString x \<Rightarrow> (None, req, resp'\<lparr>resp_Error := (if x = [] then ''unspecified error'' else x)\<rparr>, c')
        | JArray a \<Rightarrow>
            (if length a \<le> 1 then (Some (Panic IndexOutOfRange), req, resp', c')
             else case a ! 1 of
                    JString x \<Rightarrow> (None, req, resp'\<lparr>resp_Error := (if x = [] then ''unspecified error'' else x)\<rparr>, c')
                  | _ \<Rightarrow> (Some (Panic TypeAssertion), req, resp', c'))
        | other \<Rightarrow> (Some (errInvalidError other), req, resp', c'))"
  using assms unfolding ReadHeader_def
  by (simp add: Let_def split: json.splits)

lemma response_panics:
  assumes "Decode (dec c) zero_message = ((m, None), d)" and "m_Method m = []"
  shows "is_panic (fst (ReadHeader c req resp)) =
           (case m_ID m of
              None \<Rightarrow> True
            | Some raw \<Rightarrow>
                (case unmarshal_uint64 raw (cresp_ID (clientResponse c)) of
                   Inl err \<Rightarrow> False
                 | Inr n \<Rightarrow>
                     (case m_Error m of
                        JArray a \<Rightarrow> length a \<le> 1 \<or> (case a ! 1 of JString x \<Rightarrow> False | _ \<Rightarrow> True)
                      | _ \<Rightarrow> False)))"
  using assms unfolding ReadHeader_def
  by (auto simp: Let_def is_panic_def unmarshal_uint64_def
           split: option.splits sum.splits json.splits if_splits)

lemma WriteResponse_frame:
  assumes "pending c s = Some (Some i)"
  shows "WriteResponse c \<lparr>resp_Seq = s, resp_Error = t\<rparr> x =
           (None, c\<lparr>pending := (pending c)(s := None),
                    enc := enc c @
                      [JObject [(''id'', i),
                                (''result'', (if t = [] then x else JNull)),
                                (''error'', (if t = [] then JNull
                                             else case parse_json t of
                                                    Some (JArray xs) \<Rightarrow> JArray xs
                                                  | Some JNull \<Rightarrow> JNull
                                                  | _ \<Rightarrow> JString t))]]\<rparr>)"
  using assms
  by (auto simp: WriteResponse_def Encode_def marshal_serverResponse_def unmarshal_text_slice_def
        unmarshal_slice_def marshal_slice_def Let_def split: option.splits json.splits)

lemma seq_New [simp]: "seq (NewStratumCodec conn) = 0" "pending (NewStratumCodec conn) s = None"
  "dec (NewStratumCodec conn) = conn" "enc (NewStratumCodec conn) = []"
  by (simp_all add: NewStratumCodec_def)

section \<open>Runs: the counter, the numbers handed out, the pending map\<close>

lemma issued_append: "issued (tr1 @ tr2) = issued tr1 @ issued tr2"
  by (induction tr1 rule: issued.induct) auto

lemma step_effect:
  assumes "step c a = (tr, c')"
  shows "(issued tr = [] \<and> seq c' = seq c \<and>
            (\<forall>s. Answered s \<notin> set tr \<longrightarrow> pending c' s = pending c s) \<and>
            (\<forall>s. pending c s = None \<longrightarrow> pending c' s = None)) \<or>
         (tr = [Issued (seq c + 1)] \<and> seq c' = seq c + 1 \<and>
            (\<exists>i. pending c' = (pending c)(seq c + 1 \<mapsto> Some i)))"
proof (cases a)
  case (OpReadHeader req resp)
  obtain e rq rs c1 where h: "ReadHeader c req resp = (e, rq, rs, c1)"
    by (metis prod_cases4)
  from ReadHeader_effect [OF h] assms OpReadHeader h show ?thesis
    by (auto simp: Let_def)
next
  case (OpWriteRequest r p)
  obtain e c1 where h: "WriteRequest c r p = (e, c1)"
    by (cases "WriteRequest c r p")
  from WriteRequest_effect [OF h] assms OpWriteRequest h show ?thesis
    by auto
next
  case (OpWriteResponse r x)
  obtain e c1 where h: "WriteResponse c r x = (e, c1)"
    by (cases "WriteResponse c r x")
  from WriteResponse_effect [OF h] assms OpWriteResponse h show ?thesis
    by (cases e) auto
qed

lemma exec_Cons_elim:
  assumes "exec c (a # as) = (tr, c')"
  obtains tr1 c1 tr2 where "step c a = (tr1, c1)" "exec c1 as = (tr2, c')" "tr = tr1 @ tr2"
  using assms by (auto simp: Let_def split: prod.splits)

lemma exec_seq:
  "exec c ops = (tr, c') \<Longrightarrow> seq c' = seq c + of_nat (length (issued tr))"
proof (induction ops arbitrary: c tr)
  case Nil
  then show ?case by simp
next
  case (Cons a as)
  from Cons.prems obtain tr1 c1 tr2 where
    s: "step c a = (tr1, c1)" and e: "exec c1 as = (tr2, c')" and t: "tr = tr1 @ tr2"
    by (rule exec_Cons_elim)
  from step_effect [OF s] Cons.IH [OF e] t show ?case
    by (auto simp: issued_append)
qed

lemma exec_issued_nth:
  "exec c ops = (tr, c') \<Longrightarrow> j < length (issued tr) \<Longrightarrow> issued tr ! j = seq c + of_nat (Suc j)"
proof (induction ops arbitrary: c tr j)
  case Nil
  then show ?case by simp
next
  case (Cons a as)
  from Cons.prems(1) obtain tr1 c1 tr2 where
    s: "step c a = (tr1, c1)" and e: "exec c1 as = (tr2, c')" and t: "tr = tr1 @ tr2"
    by (rule exec_Cons_elim)
  from step_effect [OF s] show ?case
  proof
    assume "issued tr1 = [] \<and> seq c1 = seq c \<and>
            (\<forall>s. Answered s \<notin> set tr1 \<longrightarrow> pending c1 s = pending c s) \<and>
            (\<forall>s. pending c s = None \<longrightarrow> pending c1 s = None)"
    with Cons.IH [OF e, of j] Cons.prems(2) t show ?thesis
      by (simp add: issued_append)
  next
    assume a: "tr1 = [Issued (seq c + 1)] \<and> seq c1 = seq c + 1 \<and>
            (\<exists>i. pending c1 = (pending c)(seq c + 1 \<mapsto> Some i))"
    show ?thesis
    proof (cases j)
      case 0
      with a t show ?thesis by simp
    next
      case (Suc k)
      with Cons.prems(2) a t have "k < length (issued tr2)" by simp
      from Cons.IH [OF e this] a t Suc show ?thesis by (simp add: add.assoc)
    qed
  qed
qed

lemma exec_pending_kept:
  "exec c ops = (tr, c') \<Longrightarrow> s \<notin> set (issued tr) \<Longrightarrow> Answered s \<notin> set tr \<Longrightarrow>
   pending c' s = pending c s"
proof (induction ops arbitrary: c tr)
  case Nil
  then show ?case by simp
next
  case (Cons a as)
  from Cons.prems(1) obtain tr1 c1 tr2 where
    st: "step c a = (tr1, c1)" and e: "exec c1 as = (tr2, c')" and t: "tr = tr1 @ tr2"
    by (rule exec_Cons_elim)
  from Cons.prems t have "s \<notin> set (issued tr2)" "Answered s \<notin> set tr2"
    "s \<notin> set (issued tr1)" "Answered s \<notin> set tr1"
    by (auto simp: issued_append)
  with step_effect [OF st] Cons.IH [OF e] show ?case
    by auto
qed

lemma exec_pending_none:
  "exec c ops = (tr, c') \<Longrightarrow> pending c s = None \<Longrightarrow> s \<notin> set (issued tr) \<Longrightarrow>
   pending c' s = None"
proof (induction ops arbitrary: c tr)
  case Nil
  then show ?case by simp
next
  case (Cons a as)
  from Cons.prems(1) obtain tr1 c1 tr2 where
    st: "step c a = (tr1, c1)" and e: "exec c1 as = (tr2, c')" and t: "tr = tr1 @ tr2"
    by (rule exec_Cons_elim)
  from Cons.prems t have n: "s \<notin> set (issued tr2)" "s \<notin> set (issued tr1)"
    by (auto simp: issued_append)
  from step_effect [OF st] Cons.prems(2) n(2) have "pending c1 s = None"
    by auto
  from Cons.IH [OF e this n(1)] show ?case .
qed

text \<open>Sequence numbers are 64-bit words: below \<open>2 ^ 64\<close> they are ordered as the naturals.\<close>

lemma of_nat_less_64:
  "a < b \<Longrightarrow> b < 2 ^ 64 \<Longrightarrow> (word_of_nat a :: 64 word) < word_of_nat b"
  by (simp add: word_less_nat_alt unat_of_nat)

lemma of_nat_unat_64: "n < 2 ^ 64 \<Longrightarrow> unat (word_of_nat n :: 64 word) = n"
  by (simp add: unat_of_nat)

text \<open>At \<open>2 ^ 64\<close> the counter is back at zero.\<close>

lemma wrap_0: "(word_of_nat (2 ^ 64) :: 64 word) = 0"
  by (simp add: word_of_nat_eq_0_iff)

lemma wrap_Suc_0: "(word_of_nat (Suc (2 ^ 64 - 1)) :: 64 word) = 0"
  by (simp add: word_of_nat_eq_0_iff del: of_nat_Suc of_nat_numeral of_nat_power)

lemma wrap_1: "(word_of_nat (Suc (2 ^ 64)) :: 64 word) = 1"
  by (simp only: of_nat_Suc wrap_0 add_0_right)

lemma wrap_max: "(word_of_nat (Suc (2 ^ 64 - 2)) :: 64 word) = - 1"
proof -
  have "(word_of_nat (Suc (2 ^ 64 - 2)) :: 64 word) + 1 = word_of_nat (2 ^ 64)"
    by (simp del: of_nat_power)
  with wrap_0 show ?thesis
    by (simp add: eq_neg_iff_add_eq_0 del: of_nat_numeral of_nat_power of_nat_Suc)
qed

text \<open>The run that reads \<open>n\<close> copies of the same request hands out \<open>1, 2, \<dots>\<close> modulo \<open>2 ^ 64\<close>.\<close>

lemma step_request7:
  assumes "dec c = Value request7 # rest"
  shows "\<exists>c1. step c (OpReadHeader req resp) = ([Issued (seq c + 1)], c1) \<and> dec c1 = rest \<and>
              seq c1 = seq c + 1 \<and> pending c1 (seq c + 1) = Some (Some (JNumber ''7''))"
  using assms by (simp add: eval_defs)

lemma flood_run:
  "dec c = flood (n + k) \<Longrightarrow> exec c (replicate n (OpReadHeader rq0 rs0)) = (tr, c') \<Longrightarrow>
   length (issued tr) = n \<and> dec c' = flood k \<and>
   (0 < n \<longrightarrow> pending c' (seq c') = Some (Some (JNumber ''7'')))"
proof (induction n arbitrary: c tr)
  case 0
  then show ?case by simp
next
  case (Suc n)
  from Suc.prems(1) have "dec c = Value request7 # flood (n + k)"
    by (simp add: flood_def)
  from step_request7 [OF this, of rq0 rs0] obtain c1 where
    s: "step c (OpReadHeader rq0 rs0) = ([Issued (seq c + 1)], c1)" and d1: "dec c1 = flood (n + k)"
    and q1: "seq c1 = seq c + 1" and p1: "pending c1 (seq c + 1) = Some (Some (JNumber ''7''))"
    by blast
  from Suc.prems(2) s obtain tr2 where
    e: "exec c1 (replicate n (OpReadHeader rq0 rs0)) = (tr2, c')" and t: "tr = Issued (seq c + 1) # tr2"
    by (auto simp: Let_def split: prod.splits)
  from Suc.IH [OF d1 e] t p1 q1 e show ?case
    by (cases n) auto
qed

lemma flooded_facts:
  assumes "flooded n = (tr, c)"
  shows "length (issued tr) = n" and "seq c = word_of_nat n"
    and "j < n \<Longrightarrow> issued tr ! j = word_of_nat (Suc j)"
    and "0 < n \<Longrightarrow> pending c (word_of_nat n) = Some (Some (JNumber ''7''))"
proof -
  from assms have e: "exec (NewStratumCodec (flood n)) (replicate n (OpReadHeader rq0 rs0)) = (tr, c)"
    by (simp add: flooded_def)
  have d: "dec (NewStratumCodec (flood n)) = flood (n + 0)" by simp
  from flood_run [OF d e] show l: "length (issued tr) = n" by simp
  from exec_seq [OF e] l show q: "seq c = word_of_nat n" by simp
  show "j < n \<Longrightarrow> issued tr ! j = word_of_nat (Suc j)"
    using exec_issued_nth [OF e, of j] l by simp
  show "0 < n \<Longrightarrow> pending c (word_of_nat n) = Some (Some (JNumber ''7''))"
    using flood_run [OF d e] q by simp
qed

lemma flooded_nth: "j < n \<Longrightarrow> issued (fst (flooded n)) ! j = word_of_nat (Suc j)"
  using flooded_facts(3) [of n "fst (flooded n)" "snd (flooded n)" j] by simp

lemma flooded_pending:
  "0 < n \<Longrightarrow> pending (snd (flooded n)) (word_of_nat n) = Some (Some (JNumber ''7''))"
  using flooded_facts(4) [of n "fst (flooded n)" "snd (flooded n)"] by simp

section \<open>WriteRequest: the id of the frame\<close>

text \<open>
  Claim C9. Every call of WriteRequest writes one frame. The id of that frame is null
  exactly when the engine passed the sequence number zero (the call is a notification);
  otherwise the id is the sequence number, written as a decimal number.
\<close>

theorem WriteRequest_id:
  "\<exists>fr. WriteRequest c r p = (None, c\<lparr>enc := enc c @ [fr]\<rparr>) \<and>
        member ''id'' fr =
          Some (if req_Seq r = 0 then JNull else JNumber (decimal (unat (req_Seq r)))) \<and>
        (member ''id'' fr = Some JNull) = (req_Seq r = 0)"
proof -
  let ?fr = "marshal_clientRequest
               \<lparr>creq_Method = req_Method r,
                  creq_Params = (case p of PSlice xs \<Rightarrow> xs | PValue v \<Rightarrow> Some [v]),
                  creq_ID = (if req_Seq r = 0 then None else Some (req_Seq r))\<rparr>"
  have "WriteRequest c r p = (None, c\<lparr>enc := enc c @ [?fr]\<rparr>)"
    by (cases p) (simp_all add: WriteRequest_def Encode_def Let_def)
  moreover have "member ''id'' ?fr =
      Some (if req_Seq r = 0 then JNull else JNumber (decimal (unat (req_Seq r))))"
    by (simp add: marshal_clientRequest_def member_def)
  ultimately show ?thesis by auto
qed

text \<open>A notification and a call with sequence number 12, as they are written.\<close>

theorem WriteRequest_id_witness:
  "WriteRequest (NewStratumCodec []) \<lparr>req_Method = ''notify'', req_Seq = 0\<rparr> (PValue (JString ''ok'')) =
     (None, (NewStratumCodec [])\<lparr>enc :=
        [JObject [(''method'', JString ''notify''), (''params'', JArray [JString ''ok'']), (''id'', JNull)]]\<rparr>) \<and>
   WriteRequest (NewStratumCodec []) \<lparr>req_Method = ''add'', req_Seq = 12\<rparr> (PSlice (Some [JNumber ''1''])) =
     (None, (NewStratumCodec [])\<lparr>enc :=
        [JObject [(''method'', JString ''add''), (''params'', JArray [JNumber ''1'']), (''id'', JNumber ''12'')]]\<rparr>)"
  using WriteRequest_id [of "NewStratumCodec []" "\<lparr>req_Method = ''notify'', req_Seq = 0\<rparr>" "PValue (JString ''ok'')"]
  by (simp add: WriteRequest_def Encode_def marshal_clientRequest_def marshal_slice_def
        NewStratumCodec_def decimal.simps Let_def)

section \<open>ReadRequestBody: a request without params\<close>

text \<open>
  Claim C6. When ReadHeader has read a request that declared no params (the member is
  absent or null), ReadRequestBody with a nil target returns no error and decodes
  nothing, and ReadRequestBody with any other target fails with the error
  \<open>errMissingParams\<close>.
\<close>

theorem ReadRequestBody_missing_params:
  assumes "ReadHeader c req resp = (None, req', resp', c')"
    and "m_Method (msg c') \<noteq> []"
    and "m_Params (msg c') = None"
  shows "ReadRequestBody c' TNil = Inr TNil \<and>
         (x \<noteq> TNil \<longrightarrow> ReadRequestBody c' x = Inl errMissingParams)"
  using assms unfolding ReadHeader_def ReadRequestBody_def
  by (auto simp: Let_def split: prod.splits option.splits sum.splits json.splits if_splits)

text \<open>The request \<open>ping\<close> has no params: a slice target fails, a nil target succeeds.\<close>

theorem ReadRequestBody_missing_params_witness:
  "fst (ReadHeader (NewStratumCodec [Value ping]) rq0 rs0) = None \<and>
   ReadRequestBody (snd (snd (snd (ReadHeader (NewStratumCodec [Value ping]) rq0 rs0)))) (TNil :: json target) = Inr TNil \<and>
   ReadRequestBody (snd (snd (snd (ReadHeader (NewStratumCodec [Value ping]) rq0 rs0)))) (TSlice None :: json target)
     = Inl errMissingParams"
proof -
  let ?c = "NewStratumCodec [Value ping]"
  obtain c' where h: "ReadHeader ?c rq0 rs0 = (None, rq0\<lparr>req_Method := ''ping'', req_Seq := 1\<rparr>, rs0, c')"
    and m: "m_Method (msg c') \<noteq> []" "m_Params (msg c') = None"
    by (simp add: eval_defs)
  from ReadRequestBody_missing_params [OF h m, of "TSlice None :: json target"]
       ReadRequestBody_missing_params [OF h m, of "TNil :: json target"] h
  show ?thesis by simp
qed

section \<open>WriteResponse for a sequence number that is not pending\<close>

text \<open>
  Claim C2. Take a sequence number that was never handed out on this connection, or one
  that has been answered and not handed out again since. WriteResponse for it returns
  the error \<open>errInvalidSequence\<close> and leaves the codec exactly as it was: nothing is
  written and the pending map is unchanged.
\<close>

theorem WriteResponse_unknown_sequence:
  assumes start: "c0 = NewStratumCodec conn \<or>
                  (\<exists>cp r0 x0. WriteResponse cp r0 x0 = (None, c0) \<and> resp_Seq r0 = resp_Seq r)"
    and h: "exec c0 ops = (tr, c)"
    and ni: "resp_Seq r \<notin> set (issued tr)"
  shows "WriteResponse c r x = (Some errInvalidSequence, c)"
proof -
  from start have "pending c0 (resp_Seq r) = None"
  proof
    assume "c0 = NewStratumCodec conn"
    then show ?thesis by simp
  next
    assume "\<exists>cp r0 x0. WriteResponse cp r0 x0 = (None, c0) \<and> resp_Seq r0 = resp_Seq r"
    then obtain cp r0 x0 where w: "WriteResponse cp r0 x0 = (None, c0)" and s: "resp_Seq r0 = resp_Seq r"
      by blast
    from WriteResponse_effect [OF w] s show ?thesis by simp
  qed
  from exec_pending_none [OF h this ni] show ?thesis
    by (simp add: WriteResponse_def)
qed

text \<open>
  After one request, number 5 was never handed out; and number 1, answered once, cannot
  be answered a second time.
\<close>

theorem WriteResponse_unknown_sequence_witness:
  "WriteResponse (snd (exec (NewStratumCodec conn3) [OpReadHeader rq0 rs0]))
      \<lparr>resp_Seq = 5, resp_Error = []\<rparr> (JNumber ''3'') =
     (Some errInvalidSequence, snd (exec (NewStratumCodec conn3) [OpReadHeader rq0 rs0])) \<and>
   fst (exec (NewStratumCodec conn3)
          [OpReadHeader rq0 rs0,
           OpWriteResponse \<lparr>resp_Seq = 1, resp_Error = []\<rparr> JNull,
           OpWriteResponse \<lparr>resp_Seq = 1, resp_Error = []\<rparr> JNull]) = [Issued 1, Answered 1]"
proof -
  define c where "c = snd (exec (NewStratumCodec conn3) [OpReadHeader rq0 rs0])"
  define c' where "c' = snd (WriteResponse c \<lparr>resp_Seq = 1, resp_Error = []\<rparr> JNull)"
  have h: "exec (NewStratumCodec conn3) [OpReadHeader rq0 rs0] = ([Issued 1], c)"
    by (simp add: c_def run_defs)
  have ni: "resp_Seq \<lparr>resp_Seq = 5, resp_Error = []\<rparr> \<notin> set (issued [Issued 1])"
    by simp
  have never: "WriteResponse c \<lparr>resp_Seq = 5, resp_Error = []\<rparr> (JNumber ''3'') = (Some errInvalidSequence, c)"
    by (rule WriteResponse_unknown_sequence [OF disjI1 [OF refl] h ni])
  have w: "WriteResponse c \<lparr>resp_Seq = 1, resp_Error = []\<rparr> JNull = (None, c')"
    by (simp add: c'_def c_def run_defs)
  then have start: "c' = NewStratumCodec [] \<or>
      (\<exists>cp r0 x0. WriteResponse cp r0 x0 = (None, c') \<and>
         resp_Seq r0 = resp_Seq \<lparr>resp_Seq = 1, resp_Error = []\<rparr>)"
    by blast
  have h': "exec c' [] = ([], c')" by simp
  have twice: "WriteResponse c' \<lparr>resp_Seq = 1, resp_Error = []\<rparr> JNull = (Some errInvalidSequence, c')"
    by (rule WriteResponse_unknown_sequence [OF start h']) simp
  have "exec (NewStratumCodec conn3)
          [OpReadHeader rq0 rs0,
           OpWriteResponse \<lparr>resp_Seq = 1, resp_Error = []\<rparr> JNull,
           OpWriteResponse \<lparr>resp_Seq = 1, resp_Error = []\<rparr> JNull] = ([Issued 1, Answered 1], c')"
    using twice by (simp add: c'_def c_def run_defs)
  with never show ?thesis
    unfolding h snd_conv by simp
qed

section \<open>Sequence numbers and the id of the response\<close>

text \<open>
  Claim C1, as stated, fails when the 64-bit counter wraps around. On a connection that
  sends \<open>2 ^ 64 + 1\<close> requests with an id, the first request gets the number 1, the
  request number \<open>2 ^ 64 - 1\<close> gets the largest number, the next one gets 0 (which is
  smaller), and the last one gets 1 again (which is not unique).
\<close>

theorem sequence_number_repeats:
  "issued (fst (flooded (2 ^ 64 + 1))) ! 0 = 1 \<and>
   issued (fst (flooded (2 ^ 64 + 1))) ! (2 ^ 64 - 2) = - 1 \<and>
   issued (fst (flooded (2 ^ 64 + 1))) ! (2 ^ 64 - 1) = 0 \<and>
   issued (fst (flooded (2 ^ 64 + 1))) ! (2 ^ 64) = 1"
proof -
  have a: "issued (fst (flooded (2 ^ 64 + 1))) ! 0 = word_of_nat (Suc 0)"
    by (rule flooded_nth) simp
  have b: "issued (fst (flooded (2 ^ 64 + 1))) ! (2 ^ 64 - 2) = word_of_nat (Suc (2 ^ 64 - 2))"
    by (rule flooded_nth) simp
  have c: "issued (fst (flooded (2 ^ 64 + 1))) ! (2 ^ 64 - 1) = word_of_nat (Suc (2 ^ 64 - 1))"
    by (rule flooded_nth) simp
  have d: "issued (fst (flooded (2 ^ 64 + 1))) ! (2 ^ 64) = word_of_nat (Suc (2 ^ 64))"
    by (rule flooded_nth) simp
  have one: "(word_of_nat (Suc 0) :: 64 word) = 1" by simp
  show ?thesis
    unfolding a b c d one wrap_max wrap_Suc_0 wrap_1 by (intro conjI refl)
qed

text \<open>
  Claim C1, amended. As long as fewer than \<open>2 ^ 64\<close> requests with an id have been
  read on the connection: ReadHeader gives the \<open>k\<close>-th such request the sequence
  number \<open>k\<close>, which is greater than every number handed out before and smaller than
  every number handed out after (so the numbers are unique and strictly increasing);
  and when WriteResponse is called with that number, not answered before, it succeeds
  and the frame it writes carries exactly the id of the request.
\<close>

theorem ReadHeader_sequence_and_id:
  assumes h1: "exec (NewStratumCodec conn) ops1 = (tr1, c)"
    and d: "Decode (dec c) zero_message = ((m, None), d)"
    and mm: "m_Method m \<noteq> []" and mi: "m_ID m = Some i"
    and rh: "ReadHeader c req resp = (e, req', resp', c1)"
    and h2: "exec c1 ops2 = (tr2, c2)"
    and bound: "length (issued tr1) + 1 + length (issued tr2) < 2 ^ 64"
    and na: "Answered (req_Seq req') \<notin> set tr2"
  shows "e = None \<and> unat (req_Seq req') = length (issued tr1) + 1 \<and>
         (\<forall>s \<in> set (issued tr1). s < req_Seq req') \<and>
         (\<forall>s \<in> set (issued tr2). req_Seq req' < s) \<and>
         (\<exists>res err. WriteResponse c2 \<lparr>resp_Seq = req_Seq req', resp_Error = t\<rparr> x =
            (None, c2\<lparr>pending := (pending c2)(req_Seq req' := None),
                      enc := enc c2 @ [JObject [(''id'', i), (''result'', res), (''error'', err)]]\<rparr>))"
proof -
  let ?n = "length (issued tr1)"
  from ReadHeader_request [OF d mm mi rh]
  have e: "e = None" and q: "req_Seq req' = seq c + 1" and s1: "seq c1 = seq c + 1"
    and p1: "pending c1 = (pending c)(seq c + 1 \<mapsto> Some i)"
    by simp_all
  from exec_seq [OF h1] have sc: "seq c = word_of_nat ?n" by simp
  with q have q': "req_Seq req' = word_of_nat (Suc ?n)" by simp
  from bound have b: "Suc ?n < 2 ^ 64" by simp
  have u: "unat (req_Seq req') = ?n + 1"
    using of_nat_unat_64 [OF b] q' by simp
  have before: "\<forall>s \<in> set (issued tr1). s < req_Seq req'"
  proof
    fix s assume "s \<in> set (issued tr1)"
    then obtain j where j: "j < ?n" "issued tr1 ! j = s"
      by (auto simp: in_set_conv_nth)
    from exec_issued_nth [OF h1 j(1)] j(2) have sj: "s = word_of_nat (Suc j)" by simp
    from j(1) have "Suc j < Suc ?n" by simp
    then have "(word_of_nat (Suc j) :: 64 word) < word_of_nat (Suc ?n)"
      using b by (rule of_nat_less_64)
    then show "s < req_Seq req'" by (simp only: sj q')
  qed
  have after: "\<forall>s \<in> set (issued tr2). req_Seq req' < s"
  proof
    fix s assume "s \<in> set (issued tr2)"
    then obtain j where j: "j < length (issued tr2)" "issued tr2 ! j = s"
      by (auto simp: in_set_conv_nth)
    from exec_issued_nth [OF h2 j(1)] j(2) s1 sc
    have sj: "s = word_of_nat (Suc ?n + Suc j)" by simp
    from j(1) bound have "Suc ?n < Suc ?n + Suc j" "Suc ?n + Suc j < 2 ^ 64" by simp_all
    then have "(word_of_nat (Suc ?n) :: 64 word) < word_of_nat (Suc ?n + Suc j)"
      by (rule of_nat_less_64)
    then show "req_Seq req' < s" by (simp only: sj q')
  qed
  from after have "req_Seq req' \<notin> set (issued tr2)" by auto
  from exec_pending_kept [OF h2 this na] p1 q
  have "pending c2 (req_Seq req') = Some (Some i)" by simp
  from WriteResponse_pending [OF this, of t x] e u before after show ?thesis by simp
qed

text \<open>
  Three requests arrive; the second one has the id 7 and gets the number 2. After the
  third request has been read and the first one answered, the response for number 2 is
  \<^verbatim>\<open>{"id":7,"result":3,"error":null}\<close>.
\<close>

theorem ReadHeader_sequence_and_id_witness:
  "fst (ReadHeader (snd (exec (NewStratumCodec conn3) [OpReadHeader rq0 rs0])) rq0 rs0) = None \<and>
   req_Seq (fst (snd (ReadHeader (snd (exec (NewStratumCodec conn3) [OpReadHeader rq0 rs0])) rq0 rs0))) = 2 \<and>
   (1 :: 64 word) < 2 \<and> (2 :: 64 word) < 3 \<and>
   enc (snd (exec (NewStratumCodec conn3)
          [OpReadHeader rq0 rs0, OpReadHeader rq0 rs0, OpReadHeader rq0 rs0,
           OpWriteResponse \<lparr>resp_Seq = 1, resp_Error = []\<rparr> JNull,
           OpWriteResponse \<lparr>resp_Seq = 2, resp_Error = []\<rparr> (JNumber ''3'')])) =
     [JObject [(''id'', JNumber ''1''), (''result'', JNull), (''error'', JNull)],
      JObject [(''id'', JNumber ''7''), (''result'', JNumber ''3''), (''error'', JNull)]]"
proof -
  define c where "c = snd (exec (NewStratumCodec conn3) [OpReadHeader rq0 rs0])"
  define m where "m = fst (fst (Decode (dec c) zero_message))"
  define c1 where "c1 = snd (snd (snd (ReadHeader c rq0 rs0)))"
  define ops2 where "ops2 = [OpReadHeader rq0 rs0, OpWriteResponse \<lparr>resp_Seq = 1, resp_Error = []\<rparr> JNull]"
  define c2 where "c2 = snd (exec c1 ops2)"
  have h1: "exec (NewStratumCodec conn3) [OpReadHeader rq0 rs0] = ([Issued 1], c)"
    by (simp add: c_def run_defs)
  have d: "Decode (dec c) zero_message = ((m, None), [Value ping])"
    by (simp add: m_def c_def run_defs)
  have mm: "m_Method m \<noteq> []" and mi: "m_ID m = Some (JNumber ''7'')"
    by (simp_all add: m_def c_def run_defs)
  have rh: "ReadHeader c rq0 rs0 = (None, \<lparr>req_Method = ''add'', req_Seq = 2\<rparr>, rs0, c1)"
    by (simp add: c1_def c_def run_defs)
  have h2: "exec c1 ops2 = ([Issued 3, Answered 1], c2)"
    by (simp add: c2_def ops2_def c1_def c_def run_defs)
  have bound: "length (issued [Issued 1]) + 1 + length (issued [Issued 3, Answered 1]) < 2 ^ 64"
    by simp
  have na: "Answered (req_Seq \<lparr>req_Method = ''add'', req_Seq = 2\<rparr>) \<notin> set [Issued 3, Answered 1]"
    by simp
  from ReadHeader_sequence_and_id [OF h1 d mm mi rh h2 bound na, of "[]" "JNumber ''3''"]
  show ?thesis
    by (simp add: run_defs)
qed

section \<open>The sequence number zero\<close>

text \<open>
  Claim C10, as stated, fails when the counter wraps around: after \<open>2 ^ 64\<close> requests
  with an id, zero is a key of the pending map and WriteResponse for the sequence number
  zero succeeds.
\<close>

theorem zero_sequence_pending_after_wrap:
  "pending (snd (flooded (2 ^ 64))) 0 = Some (Some (JNumber ''7'')) \<and>
   fst (WriteResponse (snd (flooded (2 ^ 64))) \<lparr>resp_Seq = 0, resp_Error = []\<rparr> JNull) = None"
proof -
  have "pending (snd (flooded (2 ^ 64))) (word_of_nat (2 ^ 64)) = Some (Some (JNumber ''7''))"
    by (rule flooded_pending) simp
  then have p: "pending (snd (flooded (2 ^ 64))) 0 = Some (Some (JNumber ''7''))"
    by (simp only: wrap_0)
  from WriteResponse_pending [OF p, of "[]" JNull] obtain res err where
    "WriteResponse (snd (flooded (2 ^ 64))) \<lparr>resp_Seq = 0, resp_Error = []\<rparr> JNull =
       (None, (snd (flooded (2 ^ 64)))\<lparr>pending := (pending (snd (flooded (2 ^ 64))))(0 := None),
          enc := enc (snd (flooded (2 ^ 64))) @
            [JObject [(''id'', JNumber ''7''), (''result'', res), (''error'', err)]]\<rparr>)"
    by blast
  then have "fst (WriteResponse (snd (flooded (2 ^ 64))) \<lparr>resp_Seq = 0, resp_Error = []\<rparr> JNull) = None"
    by (simp only: fst_conv)
  with p show ?thesis by (intro conjI)
qed

text \<open>
  Claim C10, amended. As long as fewer than \<open>2 ^ 64\<close> requests with an id have been
  read on the connection, zero is not a key of the pending map, WriteResponse for the
  sequence number zero returns the error \<open>errInvalidSequence\<close> and changes nothing,
  and the first sequence number handed out is 1.
\<close>

theorem zero_sequence_unused:
  assumes h: "exec (NewStratumCodec conn) ops = (tr, c)"
    and bound: "length (issued tr) < 2 ^ 64"
  shows "pending c 0 = None \<and>
         WriteResponse c \<lparr>resp_Seq = 0, resp_Error = t\<rparr> x = (Some errInvalidSequence, c) \<and>
         (issued tr \<noteq> [] \<longrightarrow> hd (issued tr) = 1)"
proof -
  have "0 \<notin> set (issued tr)"
  proof
    assume "0 \<in> set (issued tr)"
    then obtain j where j: "j < length (issued tr)" "issued tr ! j = 0"
      by (auto simp: in_set_conv_nth)
    from exec_issued_nth [OF h j(1)] j(2) have z: "(word_of_nat (Suc j) :: 64 word) = 0" by simp
    from j(1) bound have "Suc j < 2 ^ 64" by simp
    from of_nat_unat_64 [OF this] z show False by simp
  qed
  from exec_pending_none [OF h _ this] have p: "pending c 0 = None" by simp
  then have w: "WriteResponse c \<lparr>resp_Seq = 0, resp_Error = t\<rparr> x = (Some errInvalidSequence, c)"
    by (simp add: WriteResponse_def)
  have "issued tr \<noteq> [] \<longrightarrow> hd (issued tr) = 1"
  proof
    assume "issued tr \<noteq> []"
    then have "0 < length (issued tr)" by simp
    from exec_issued_nth [OF h this] \<open>issued tr \<noteq> []\<close> show "hd (issued tr) = 1"
      by (simp add: hd_conv_nth)
  qed
  with p w show ?thesis by simp
qed

text \<open>After two requests the numbers handed out are 1 and 2, and zero is not pending.\<close>

theorem zero_sequence_unused_witness:
  "pending (snd (exec (NewStratumCodec conn3) [OpReadHeader rq0 rs0, OpReadHeader rq0 rs0])) 0 = None \<and>
   fst (WriteResponse (snd (exec (NewStratumCodec conn3) [OpReadHeader rq0 rs0, OpReadHeader rq0 rs0]))
          \<lparr>resp_Seq = 0, resp_Error = []\<rparr> JNull) = Some errInvalidSequence \<and>
   issued (fst (exec (NewStratumCodec conn3) [OpReadHeader rq0 rs0, OpReadHeader rq0 rs0])) = [1, 2]"
proof -
  define c where "c = snd (exec (NewStratumCodec conn3) [OpReadHeader rq0 rs0, OpReadHeader rq0 rs0])"
  have h: "exec (NewStratumCodec conn3) [OpReadHeader rq0 rs0, OpReadHeader rq0 rs0] = ([Issued 1, Issued 2], c)"
    by (simp add: c_def run_defs)
  have bound: "length (issued [Issued 1, Issued 2]) < 2 ^ 64"
    by simp
  from zero_sequence_unused [OF h bound, of "[]" JNull]
  have "pending c 0 = None"
    and "fst (WriteResponse c \<lparr>resp_Seq = 0, resp_Error = []\<rparr> JNull) = Some errInvalidSequence"
    by simp_all
  then show ?thesis
    unfolding h fst_conv snd_conv by simp
qed

section \<open>ReadHeader: the error of a response\<close>

text \<open>
  Claim C4. For an inbound response (a frame without a method, whose id is read as an
  unsigned integer), ReadHeader succeeds and the error handed to the engine is: the
  empty string when the error member is absent or null; the string itself when the
  member is a string, and \<open>unspecified error\<close> when that string is empty; the text at
  position two when the member is an array with a string there, and again
  \<open>unspecified error\<close> when that text is empty.
\<close>

theorem ReadHeader_response_error:
  assumes d: "Decode (dec c) zero_message = ((m, None), d)"
    and mm: "m_Method m = []" and mi: "m_ID m = Some raw"
    and u: "unmarshal_uint64 raw (cresp_ID (clientResponse c)) = Inr n"
  shows "(m_Error m = JNull \<longrightarrow>
            (\<exists>c'. ReadHeader c req resp = (None, req, \<lparr>resp_Seq = n, resp_Error = []\<rparr>, c'))) \<and>
         (\<forall>x. m_Error m = JString x \<longrightarrow>
            (\<exists>c'. ReadHeader c req resp =
               (None, req, \<lparr>resp_Seq = n, resp_Error = (if x = [] then ''unspecified error'' else x)\<rparr>, c'))) \<and>
         (\<forall>a x. m_Error m = JArray a \<and> 1 < length a \<and> a ! 1 = JString x \<longrightarrow>
            (\<exists>c'. ReadHeader c req resp =
               (None, req, \<lparr>resp_Seq = n, resp_Error = (if x = [] then ''unspecified error'' else x)\<rparr>, c')))"
  by (auto simp: response_header [OF d mm mi u] Let_def)

text \<open>
  The error \<^verbatim>\<open>["33", "Unauthorized", null]\<close> is handed on as \<open>Unauthorized\<close>, the
  empty string as \<open>unspecified error\<close>, a string as itself, and null as no error.
\<close>

theorem ReadHeader_response_error_witness:
  "fst (snd (snd (ReadHeader
     (NewStratumCodec [Value (reply (JNumber ''1'') (JArray [JString ''33'', JString ''Unauthorized'', JNull]))])
     rq0 rs0))) = \<lparr>resp_Seq = 1, resp_Error = ''Unauthorized''\<rparr> \<and>
   fst (snd (snd (ReadHeader (NewStratumCodec [Value (reply (JNumber ''2'') (JString []))]) rq0 rs0))) =
     \<lparr>resp_Seq = 2, resp_Error = ''unspecified error''\<rparr> \<and>
   fst (snd (snd (ReadHeader (NewStratumCodec [Value (reply (JNumber ''3'') (JString ''Job not found''))]) rq0 rs0))) =
     \<lparr>resp_Seq = 3, resp_Error = ''Job not found''\<rparr> \<and>
   fst (snd (snd (ReadHeader (NewStratumCodec [Value (reply (JNumber ''4'') JNull)]) rq0 rs0))) =
     \<lparr>resp_Seq = 4, resp_Error = []\<rparr>"
proof -
  have a: "fst (snd (snd (ReadHeader
     (NewStratumCodec [Value (reply (JNumber ''1'') (JArray [JString ''33'', JString ''Unauthorized'', JNull]))])
     rq0 rs0))) = \<lparr>resp_Seq = 1, resp_Error = ''Unauthorized''\<rparr>"
    using ReadHeader_response_error
      [where c = "NewStratumCodec [Value (reply (JNumber ''1'') (JArray [JString ''33'', JString ''Unauthorized'', JNull]))]"
         and m = "\<lparr>m_Method = [], m_Params = None, m_ID = Some (JNumber ''1''), m_Result = None,
                   m_Error = JArray [JString ''33'', JString ''Unauthorized'', JNull]\<rparr>"
         and d = "[]" and raw = "JNumber ''1''" and n = 1 and req = rq0 and resp = rs0]
    by (auto simp: Decode_reply unmarshal_uint64_digit)
  have b: "fst (snd (snd (ReadHeader (NewStratumCodec [Value (reply (JNumber ''2'') (JString []))]) rq0 rs0))) =
     \<lparr>resp_Seq = 2, resp_Error = ''unspecified error''\<rparr>"
    using ReadHeader_response_error
      [where c = "NewStratumCodec [Value (reply (JNumber ''2'') (JString []))]"
         and m = "\<lparr>m_Method = [], m_Params = None, m_ID = Some (JNumber ''2''), m_Result = None,
                   m_Error = JString []\<rparr>"
         and d = "[]" and raw = "JNumber ''2''" and n = 2 and req = rq0 and resp = rs0]
    by (auto simp: Decode_reply unmarshal_uint64_digit)
  have c: "fst (snd (snd (ReadHeader (NewStratumCodec [Value (reply (JNumber ''3'') (JString ''Job not found''))]) rq0 rs0))) =
     \<lparr>resp_Seq = 3, resp_Error = ''Job not found''\<rparr>"
    using ReadHeader_response_error
      [where c = "NewStratumCodec [Value (reply (JNumber ''3'') (JString ''Job not found''))]"
         and m = "\<lparr>m_Method = [], m_Params = None, m_ID = Some (JNumber ''3''), m_Result = None,
                   m_Error = JString ''Job not found''\<rparr>"
         and d = "[]" and raw = "JNumber ''3''" and n = 3 and req = rq0 and resp = rs0]
    by (auto simp: Decode_reply unmarshal_uint64_digit)
  have d: "fst (snd (snd (ReadHeader (NewStratumCodec [Value (reply (JNumber ''4'') JNull)]) rq0 rs0))) =
     \<lparr>resp_Seq = 4, resp_Error = []\<rparr>"
    using ReadHeader_response_error
      [where c = "NewStratumCodec [Value (reply (JNumber ''4'') JNull)]"
         and m = "\<lparr>m_Method = [], m_Params = None, m_ID = Some (JNumber ''4''), m_Result = None,
                   m_Error = JNull\<rparr>"
         and d = "[]" and raw = "JNumber ''4''" and n = 4 and req = rq0 and resp = rs0]
    by (auto simp: Decode_reply unmarshal_uint64_digit)
  from a b c d show ?thesis by (intro conjI)
qed

section \<open>A single parameter, from WriteRequest to ReadRequestBody\<close>

text \<open>
  Claim C5. WriteRequest with a single value \<open>v\<close> that is not a
  \<^verbatim>\<open>[]interface{}\<close> writes a frame whose params are the one-element array \<open>[v]\<close>.
  When the peer reads that frame (a request: its method is not empty), ReadRequestBody
  with a list target delivers the list \<open>[v]\<close>, and ReadRequestBody with a pointer to
  a single value unmarshals \<open>v\<close> into it (a null \<open>v\<close> leaves the target as it is), so
  that a fresh target of type \<^verbatim>\<open>interface{}\<close> ends up holding \<open>v\<close>.
\<close>

theorem WriteRequest_roundtrip:
  assumes mth: "req_Method r \<noteq> []"
    and w: "WriteRequest ca r (PValue v) = (e, ca')"
    and rcv: "dec cb = Value (last (enc ca')) # rest"
    and rh: "ReadHeader cb req resp = (e', req', resp', cb')"
  shows "e = None \<and> e' = None \<and>
         (\<exists>fr. enc ca' = enc ca @ [fr] \<and> member ''params'' fr = Some (JArray [v])) \<and>
         req_Method req' = req_Method r \<and>
         ReadRequestBody cb' (TSlice old :: 'a target) = Inr (TSlice (Some [v])) \<and>
         ReadRequestBody cb' (TPtr u a :: 'b target) =
           (if v = JNull then Inr (TPtr u a) else unmarshal_target v (TPtr u a)) \<and>
         ReadRequestBody cb' (TPtr (\<lambda>j k. Inr j) JNull) = Inr (TPtr (\<lambda>j k. Inr j) v)"
proof -
  let ?q = "\<lparr>creq_Method = req_Method r, creq_Params = Some [v],
              creq_ID = (if req_Seq r = 0 then None else Some (req_Seq r))\<rparr>"
  from w have e: "e = None" and ca': "ca' = ca\<lparr>enc := enc ca @ [marshal_clientRequest ?q]\<rparr>"
    by (auto simp: WriteRequest_def Encode_def Let_def)
  have p: "member ''params'' (marshal_clientRequest ?q) = Some (JArray [v])"
    by (simp add: member_def marshal_clientRequest_def marshal_slice_def)
  from rcv ca' have d: "Decode (dec cb) zero_message =
      (unmarshal_message (marshal_clientRequest ?q) zero_message, rest)"
    by (simp add: Decode_def)
  from rh d mth have e': "e' = None" and m: "req_Method req' = req_Method r"
    and sp: "sreq_Params (serverRequest cb') = Some (JArray [v])"
    unfolding ReadHeader_def unmarshal_clientRequest
    by (auto simp: Let_def raw_ptr_def marshal_slice_def split: if_splits)
  from sp have "ReadRequestBody cb' (TSlice old :: 'a target) = Inr (TSlice (Some [v]))"
    and "ReadRequestBody cb' (TPtr u a :: 'b target) =
           (if v = JNull then Inr (TPtr u a) else unmarshal_target v (TPtr u a))"
    and "ReadRequestBody cb' (TPtr (\<lambda>j k. Inr j) JNull) = Inr (TPtr (\<lambda>j k. Inr j) v)"
    by (simp_all add: ReadRequestBody_def unmarshal_target_def unmarshal_positional_def unmarshal_slice_def)
  with e e' ca' p m show ?thesis by simp
qed

text \<open>The call \<open>mining.authorize\<close> with the single parameter \<open>worker1\<close> and sequence number 3.\<close>

theorem WriteRequest_roundtrip_witness:
  "enc (snd (WriteRequest (NewStratumCodec []) \<lparr>req_Method = ''mining.authorize'', req_Seq = 3\<rparr>
               (PValue (JString ''worker1'')))) =
     [JObject [(''method'', JString ''mining.authorize''), (''params'', JArray [JString ''worker1'']),
               (''id'', JNumber ''3'')]] \<and>
   ReadRequestBody
     (snd (snd (snd (ReadHeader
        (NewStratumCodec [Value (last (enc (snd (WriteRequest (NewStratumCodec [])
            \<lparr>req_Method = ''mining.authorize'', req_Seq = 3\<rparr> (PValue (JString ''worker1''))))))])
        rq0 rs0))))
     (TSlice None :: json target) = Inr (TSlice (Some [JString ''worker1''])) \<and>
   ReadRequestBody
     (snd (snd (snd (ReadHeader
        (NewStratumCodec [Value (last (enc (snd (WriteRequest (NewStratumCodec [])
            \<lparr>req_Method = ''mining.authorize'', req_Seq = 3\<rparr> (PValue (JString ''worker1''))))))])
        rq0 rs0))))
     (TPtr (\<lambda>j k. Inr j) JNull) = Inr (TPtr (\<lambda>j k. Inr j) (JString ''worker1''))"
proof -
  define r where "r = \<lparr>req_Method = ''mining.authorize'', req_Seq = 3\<rparr>"
  define ca' where "ca' = snd (WriteRequest (NewStratumCodec []) r (PValue (JString ''worker1'')))"
  define cb where "cb = NewStratumCodec [Value (last (enc ca'))]"
  define h where "h = ReadHeader cb rq0 rs0"
  have mth: "req_Method r \<noteq> []" by (simp add: r_def)
  have w: "WriteRequest (NewStratumCodec []) r (PValue (JString ''worker1'')) = (None, ca')"
    by (simp add: ca'_def WriteRequest_def Encode_def Let_def)
  have rcv: "dec cb = Value (last (enc ca')) # []" by (simp add: cb_def)
  have rh: "ReadHeader cb rq0 rs0 = (fst h, fst (snd h), fst (snd (snd h)), snd (snd (snd h)))"
    by (simp add: h_def)
  have fr: "enc ca' = [JObject [(''method'', JString ''mining.authorize''), (''params'', JArray [JString ''worker1'']),
               (''id'', JNumber ''3'')]]"
    by (simp add: ca'_def r_def WriteRequest_def Encode_def marshal_clientRequest_def marshal_slice_def
          decimal.simps Let_def)
  note T = WriteRequest_roundtrip [where 'a = json and 'b = json, OF mth w rcv rh,
         of "None :: json list option" "\<lambda>j k. Inr j" JNull]
  from T have a: "ReadRequestBody (snd (snd (snd h))) (TSlice None :: json target) =
      Inr (TSlice (Some [JString ''worker1'']))"
    by simp
  from T have b: "ReadRequestBody (snd (snd (snd h))) (TPtr (\<lambda>j k. Inr j) JNull) =
      Inr (TPtr (\<lambda>j k. Inr j) (JString ''worker1''))"
    by (simp add: unmarshal_target_def)
  have c: "enc (snd (WriteRequest (NewStratumCodec []) \<lparr>req_Method = ''mining.authorize'', req_Seq = 3\<rparr>
               (PValue (JString ''worker1'')))) =
     [JObject [(''method'', JString ''mining.authorize''), (''params'', JArray [JString ''worker1'']),
               (''id'', JNumber ''3'')]]"
    using fr by (simp only: ca'_def r_def)
  from a b c show ?thesis
    by (simp only: h_def cb_def ca'_def r_def)
qed

section \<open>ReadHeader: malformed responses\<close>

text \<open>
  Claim C3 says that ReadHeader answers every malformed response with an error and
  never panics. The code panics: a response without an id (or with id null)
  dereferences a nil pointer; an error member that is an array with fewer than two
  elements is indexed out of range; an array whose second element is not a string
  fails the type assertion. (An id that is not an unsigned integer, and an error member
  that is neither a string nor an array, do return an error, see
  \<open>response_header\<close>.)
\<close>

theorem ReadHeader_panics:
  "fst (ReadHeader (NewStratumCodec [Value (JObject [(''result'', JBool True), (''error'', JNull)])]) rq0 rs0) =
     Some (Panic NilDereference) \<and>
   fst (ReadHeader (NewStratumCodec [Value (reply (JNumber ''1'') (JArray []))]) rq0 rs0) =
     Some (Panic IndexOutOfRange) \<and>
   fst (ReadHeader (NewStratumCodec [Value (reply (JNumber ''1'') (JArray [JString ''33'']))]) rq0 rs0) =
     Some (Panic IndexOutOfRange) \<and>
   fst (ReadHeader (NewStratumCodec [Value (reply (JNumber ''1'') (JArray [JNumber ''20'', JNumber ''21'']))]) rq0 rs0) =
     Some (Panic TypeAssertion)"
  by (simp add: eval_defs)

section \<open>WriteResponse: the error of the frame\<close>

text \<open>An error text that is a JSON array is written as that array.\<close>

lemma WriteResponse_array_error_text:
  "enc (snd (exec (NewStratumCodec [Value request7])
          [OpReadHeader rq0 rs0,
           OpWriteResponse \<lparr>resp_Seq = 1, resp_Error = ''[21, \"Job not found\", null]''\<rparr> (JNumber ''3'')])) =
     [JObject [(''id'', JNumber ''7''), (''result'', JNull),
               (''error'', JArray [JNumber ''21'', JString ''Job not found'', JNull])]]"
  by (simp add: run_defs unmarshal_text_slice_def parse_json_job_not_found unmarshal_slice_def
        marshal_slice_def)

text \<open>
  Claim C8 says that an error text that is not a JSON array is written as a plain
  string. For the error text \<open>null\<close> the code writes a frame whose error is null:
  unmarshalling null into the slice succeeds and leaves it nil. The request with id
  7 is answered with \<^verbatim>\<open>{"id":7,"result":null,"error":null}\<close> although the handler
  failed. (For every other text the frame is as the claim says, see
  \<open>WriteResponse_frame\<close>.)
\<close>

theorem WriteResponse_null_error_text:
  "fst (exec (NewStratumCodec [Value request7])
          [OpReadHeader rq0 rs0,
           OpWriteResponse \<lparr>resp_Seq = 1, resp_Error = ''null''\<rparr> (JNumber ''3'')]) =
     [Issued 1, Answered 1] \<and>
   enc (snd (exec (NewStratumCodec [Value request7])
          [OpReadHeader rq0 rs0,
           OpWriteResponse \<lparr>resp_Seq = 1, resp_Error = ''null''\<rparr> (JNumber ''3'')])) =
     [JObject [(''id'', JNumber ''7''), (''result'', JNull), (''error'', JNull)]]"
  by (simp add: run_defs unmarshal_text_slice_def parse_json_null unmarshal_slice_def marshal_slice_def)

end
